theory Spec2Isabelle
  imports Main "HOL-Library.Sublist"
begin

section \<open>The session service of \<open>server.py\<close>\<close>

text \<open>
  \<open>server.py\<close> keeps a process-wide dictionary \<open>sessions\<close> and exposes five POST
  handlers over it. Each handler is modelled as a function from the dictionary before
  the request to the pair of the outcome (an \<open>HTTPException\<close> or the JSON body) and the
  dictionary afterwards, so that what an aborted request leaves behind is part of the
  model and not decided by the result type. One request is handled from start to end
  without interleaving. Logging has no effect on the dictionary and is left out.
\<close>

subsection \<open>Data\<close>

text \<open>A history entry, the dict \<open>{"role": ..., "content": ...}\<close>.\<close>

record turn =
  role :: string
  content :: string

text \<open>A stored session, the dict \<open>{"file_name", "full_file", "history"}\<close>.\<close>

record session =
  file_name :: string
  full_file :: string
  history :: "turn list"

text \<open>The global \<open>sessions = {}\<close>, keyed by the identifier string.\<close>

type_synonym sessions = "string \<rightharpoonup> session"

text \<open>
  The pydantic models. The two fields of \<open>StartSessionRequest\<close> carry the prefix
  \<open>req_\<close> to keep them apart from the fields of a stored session.
\<close>

record StartSessionRequest =
  req_file_name :: string
  req_full_file :: string

record SnippetRequest =
  session_id :: string
  snippet :: string
  question :: "string option"
  programming_lang :: "string option"

text \<open>\<open>HTTPException(status_code=..., detail=...)\<close>.\<close>

record HTTPException =
  status_code :: nat
  detail :: string

text \<open>The JSON bodies the handlers return, one constructor per key.\<close>

datatype response =
    SessionId string
  | Explanation string
  | FixedCode string
  | FullExplanation string
  | CompletedMethod string

subsection \<open>The outside world\<close>

text \<open>
  The body of the \<open>try\<close> block of \<open>ai_response\<close> (the POST to the Gemini endpoint,
  \<open>raise_for_status\<close>, the JSON decoding and the extraction of
  \<open>candidates[0].content.parts[0].text\<close>) is outside the repository. It is a
  parameter of the model: a function of the prompt text and the timeout that answers
  \<open>Inl msg\<close> when any of those steps raised an exception \<open>e\<close> with \<open>str(e) = msg\<close>, and
  \<open>Inr t\<close> when the extracted text is the string \<open>t\<close>.
\<close>

type_synonym upstream = "string \<Rightarrow> nat \<Rightarrow> string + string"

text \<open>
  \<open>str(e)\<close> of an \<open>HTTPException\<close> is library code as well, and the handlers that call
  it take it as the parameter \<open>exc_str\<close>. Starlette renders the exception as
  \<open>"{status_code}: {detail}"\<close>; \<open>starlette_str\<close> is that rendering, used in the examples.
\<close>

fun decimal :: "nat \<Rightarrow> string" where
  "decimal n =
     (if n < 10 then [char_of (48 + n)]
      else decimal (n div 10) @ [char_of (48 + n mod 10)])"

declare decimal.simps [simp del]

definition starlette_str :: "HTTPException \<Rightarrow> string" where
  "starlette_str e = decimal (status_code e) @ '': '' @ detail e"

subsection \<open>Python primitives\<close>

text \<open>The truth value of a \<open>str | None\<close>: \<open>None\<close> and the empty string are false.\<close>

definition truthy :: "string option \<Rightarrow> bool" where
  "truthy v = (case v of None \<Rightarrow> False | Some s \<Rightarrow> s \<noteq> [])"

text \<open>\<open>sep.join(xs)\<close>.\<close>

fun str_join :: "string \<Rightarrow> string list \<Rightarrow> string" where
  "str_join sep [] = []"
| "str_join sep [x] = x"
| "str_join sep (x # y # ys) = x @ sep @ str_join sep (y # ys)"

subsection \<open>The helper \<open>ai_response\<close>\<close>

definition ai_response :: "upstream \<Rightarrow> string \<Rightarrow> nat \<Rightarrow> HTTPException + string" where
  "ai_response post prompt_text timeout =
     (case post prompt_text timeout of
        Inl e \<Rightarrow> Inl \<lparr>status_code = 500, detail = e\<rparr>
      | Inr text \<Rightarrow> Inr text)"

subsection \<open>Prompts\<close>

text \<open>
  The prompt of \<open>explain\<close>, statement by statement: the instruction and the snippet,
  the question appended when truthy, the language prepended when truthy, the full
  file appended, then one piece per history entry in the \<open>for\<close> loop.
\<close>

definition explain_prompt :: "SnippetRequest \<Rightarrow> session \<Rightarrow> string" where
  "explain_prompt req session =
     (let prompt0 =
            ''Explain the following code snippet in context of the full file in concisely:\<newline>''
              @ snippet req @ ''\<newline>'';
          prompt1 = (if truthy (question req)
                     then prompt0 @ ''Question: '' @ the (question req) @ ''\<newline>''
                     else prompt0);
          prompt2 = (if truthy (programming_lang req)
                     then ''Programming language: '' @ the (programming_lang req) @ ''\<newline>''
                            @ prompt1
                     else prompt1);
          prompt3 = prompt2 @ ''\<newline>Full file:\<newline>'' @ full_file session
                      @ ''\<newline>\<newline>''
      in foldl (\<lambda>prompt h. prompt @ role h @ '':\<newline>'' @ content h @ ''\<newline>'')
           prompt3 (history session))"

definition fix_prompt :: "SnippetRequest \<Rightarrow> string" where
  "fix_prompt req =
     (let prompt0 =
            ''Fix any bugs in the following code snippet:\<newline>\<newline>```\<newline>''
              @ snippet req @ ''\<newline>```\<newline>\<newline>'';
          prompt1 = (if truthy (programming_lang req)
                     then ''Programming language: '' @ the (programming_lang req)
                            @ ''\<newline>\<newline>'' @ prompt0
                     else prompt0)
      in prompt1 @ ''Return only the corrected code snippet.'')"

definition method_completion_prompt :: "SnippetRequest \<Rightarrow> session \<Rightarrow> string" where
  "method_completion_prompt req session =
     (let prompt0 =
            ''Complete the following method within the context of the code:\<newline>''
              @ snippet req @ ''\<newline>\<newline>Full context:\<newline>''
              @ full_file session @ ''\<newline>'';
          prompt1 = (if truthy (programming_lang req)
                     then ''Programming language: '' @ the (programming_lang req) @ ''\<newline>''
                            @ prompt0
                     else prompt0)
      in prompt1 @ ''\<newline>Return only the completed method implementation.'')"

subsection \<open>Handlers\<close>

text \<open>
  \<open>start_session\<close>. The identifier \<open>str(uuid.uuid4())\<close> is drawn outside the program
  and is the first argument.
\<close>

definition start_session ::
  "string \<Rightarrow> sessions \<Rightarrow> StartSessionRequest \<Rightarrow> (HTTPException + response) \<times> sessions" where
  "start_session uuid4 sessions req =
     (Inr (SessionId uuid4),
      sessions(uuid4 \<mapsto>
        \<lparr>file_name = req_file_name req, full_file = req_full_file req, history = []\<rparr>))"

text \<open>
  \<open>explain\<close>. \<open>session\<close> is the dict stored under the key, so the two \<open>append\<close>s
  change the stored session; an \<open>HTTPException\<close> leaves through the handler with the
  dictionary as it is at that point.
\<close>

definition explain ::
  "upstream \<Rightarrow> sessions \<Rightarrow> SnippetRequest \<Rightarrow> (HTTPException + response) \<times> sessions" where
  "explain post sessions req =
     (case sessions (session_id req) of
        None \<Rightarrow> (Inl \<lparr>status_code = 404, detail = ''Session not found''\<rparr>, sessions)
      | Some session \<Rightarrow>
          (case ai_response post (explain_prompt req session) 40 of
             Inl e \<Rightarrow> (Inl e, sessions)
           | Inr explanation \<Rightarrow>
               (let session1 = session\<lparr>history := history session
                                 @ [\<lparr>role = ''user'', content = snippet req\<rparr>]\<rparr>;
                    session2 = session1\<lparr>history := history session1
                                 @ [\<lparr>role = ''assistant'', content = explanation\<rparr>]\<rparr>
                in (Inr (Explanation explanation), sessions(session_id req \<mapsto> session2)))))"

text \<open>
  \<open>fix\<close>, named \<open>fix_endpoint\<close> since \<open>fix\<close> is a keyword of the proof language. The \<open>except Exception\<close> clause catches the \<open>HTTPException\<close> raised by
  \<open>ai_response\<close> and raises a new one whose detail is \<open>"Error: "\<close> followed by the
  rendering of the caught one.
\<close>

definition fix_endpoint ::
  "upstream \<Rightarrow> (HTTPException \<Rightarrow> string) \<Rightarrow> sessions \<Rightarrow> SnippetRequest
     \<Rightarrow> (HTTPException + response) \<times> sessions" where
  "fix_endpoint post exc_str sessions req =
     (case sessions (session_id req) of
        None \<Rightarrow> (Inl \<lparr>status_code = 404, detail = ''Session not found''\<rparr>, sessions)
      | Some session \<Rightarrow>
          (case ai_response post (fix_prompt req) 60 of
             Inl e \<Rightarrow> (Inl \<lparr>status_code = 500, detail = ''Error: '' @ exc_str e\<rparr>, sessions)
           | Inr fixed_code \<Rightarrow>
               (let session1 = session\<lparr>history := history session
                                 @ [\<lparr>role = ''user'', content = snippet req\<rparr>]\<rparr>;
                    session2 = session1\<lparr>history := history session1
                                 @ [\<lparr>role = ''assistant'', content = fixed_code\<rparr>]\<rparr>
                in (Inr (FixedCode fixed_code), sessions(session_id req \<mapsto> session2)))))"

definition get_full_explanation ::
  "sessions \<Rightarrow> string \<Rightarrow> (HTTPException + response) \<times> sessions" where
  "get_full_explanation sessions sid =
     (case sessions sid of
        None \<Rightarrow> (Inl \<lparr>status_code = 404, detail = ''Session not found''\<rparr>, sessions)
      | Some session \<Rightarrow>
          (let full_exp = str_join ''\<newline>\<newline>''
                            [content h. h \<leftarrow> history session, role h = ''assistant'']
           in (Inr (FullExplanation full_exp), sessions)))"

definition method_completion ::
  "upstream \<Rightarrow> (HTTPException \<Rightarrow> string) \<Rightarrow> sessions \<Rightarrow> SnippetRequest
     \<Rightarrow> (HTTPException + response) \<times> sessions" where
  "method_completion post exc_str sessions req =
     (case sessions (session_id req) of
        None \<Rightarrow> (Inl \<lparr>status_code = 404, detail = ''Session not found''\<rparr>, sessions)
      | Some session \<Rightarrow>
          (case ai_response post (method_completion_prompt req session) 60 of
             Inl e \<Rightarrow> (Inl \<lparr>status_code = 500, detail = ''Error: '' @ exc_str e\<rparr>, sessions)
           | Inr completed_method \<Rightarrow>
               (let session1 = session\<lparr>history := history session
                                 @ [\<lparr>role = ''user'', content = snippet req\<rparr>]\<rparr>;
                    session2 = session1\<lparr>history := history session1
                                 @ [\<lparr>role = ''assistant'', content = completed_method\<rparr>]\<rparr>
                in (Inr (CompletedMethod completed_method),
                    sessions(session_id req \<mapsto> session2)))))"

subsection \<open>Routing\<close>

text \<open>
  The five \<open>@app.post\<close> routes as one request type. A \<open>StartSession\<close> request carries
  the identifier that \<open>uuid.uuid4()\<close> yields while it is served.
\<close>

datatype operation =
    StartSession string StartSessionRequest
  | Explain SnippetRequest
  | Fix SnippetRequest
  | GetFullExplanation string
  | MethodCompletion SnippetRequest

fun handle ::
  "upstream \<Rightarrow> (HTTPException \<Rightarrow> string) \<Rightarrow> sessions \<Rightarrow> operation
     \<Rightarrow> (HTTPException + response) \<times> sessions" where
  "handle post exc_str sessions (StartSession uuid4 req) = start_session uuid4 sessions req"
| "handle post exc_str sessions (Explain req) = explain post sessions req"
| "handle post exc_str sessions (Fix req) = fix_endpoint post exc_str sessions req"
| "handle post exc_str sessions (GetFullExplanation sid) = get_full_explanation sessions sid"
| "handle post exc_str sessions (MethodCompletion req) =
     method_completion post exc_str sessions req"

subsection \<open>The wording of the specification, for comparison\<close>

text \<open>
  "The concatenation, in order and separated by a blank line": the first text, then
  every later text behind the two-character separator.
\<close>

fun blank_line_separated :: "string list \<Rightarrow> string" where
  "blank_line_separated [] = []"
| "blank_line_separated (x # xs) = x @ concat (map (\<lambda>y. ''\<newline>\<newline>'' @ y) xs)"

text \<open>
  "The question and programming-language hints exactly when they are supplied": a hint
  line is present for every value other than \<open>None\<close>.
\<close>

definition hint_when_supplied :: "string \<Rightarrow> string option \<Rightarrow> string" where
  "hint_when_supplied label v = (case v of None \<Rightarrow> [] | Some s \<Rightarrow> label @ s @ ''\<newline>'')"

definition explain_prompt_as_specified :: "SnippetRequest \<Rightarrow> session \<Rightarrow> string" where
  "explain_prompt_as_specified req session =
     hint_when_supplied ''Programming language: '' (programming_lang req)
     @ ''Explain the following code snippet in context of the full file in concisely:\<newline>''
     @ snippet req @ ''\<newline>''
     @ hint_when_supplied ''Question: '' (question req)
     @ ''\<newline>Full file:\<newline>'' @ full_file session @ ''\<newline>\<newline>''
     @ concat (map (\<lambda>h. role h @ '':\<newline>'' @ content h @ ''\<newline>'') (history session))"

subsection \<open>Example data\<close>

text \<open>
  The example of the specification: a session for \<open>a.py\<close> holding \<open>print(1)\<close>, a
  request to explain \<open>print(1)\<close>, and the upstream call stubbed to return
  \<open>prints 1\<close>; beside it an upstream call that always times out, a second session
  with two recorded exchanges, and a request whose question is the empty string.
\<close>

definition example_session :: session where
  "example_session = \<lparr>file_name = ''a.py'', full_file = ''print(1)'', history = []\<rparr>"

definition busy_session :: session where
  "busy_session =
     \<lparr>file_name = ''b.py'', full_file = ''x = 2'',
      history = [\<lparr>role = ''user'', content = ''x''\<rparr>,
                 \<lparr>role = ''assistant'', content = ''a name''\<rparr>,
                 \<lparr>role = ''user'', content = ''2''\<rparr>,
                 \<lparr>role = ''assistant'', content = ''a number''\<rparr>]\<rparr>"

definition example_sessions :: sessions where
  "example_sessions = [''s1'' \<mapsto> example_session, ''s2'' \<mapsto> busy_session]"

definition example_request :: SnippetRequest where
  "example_request =
     \<lparr>session_id = ''s1'', snippet = ''print(1)'', question = None, programming_lang = None\<rparr>"

definition unknown_request :: SnippetRequest where
  "unknown_request =
     \<lparr>session_id = ''garbage'', snippet = ''print(1)'', question = Some ''why?'',
      programming_lang = Some ''python''\<rparr>"

definition empty_question_request :: SnippetRequest where
  "empty_question_request =
     \<lparr>session_id = ''s1'', snippet = ''print(1)'', question = Some [], programming_lang = None\<rparr>"

definition hinted_request :: SnippetRequest where
  "hinted_request =
     \<lparr>session_id = ''s2'', snippet = ''x'', question = Some ''why?'',
      programming_lang = Some ''python''\<rparr>"

definition stub_upstream :: upstream where
  "stub_upstream prompt_text timeout = Inr ''prints 1''"

definition failing_upstream :: upstream where
  "failing_upstream prompt_text timeout = Inl ''timed out''"

section \<open>Properties\<close>

subsection \<open>The handlers on a known and on an unknown identifier\<close>

lemma explain_known:
  "sessions (session_id req) = Some s \<Longrightarrow>
   explain post sessions req =
     (case post (explain_prompt req s) 40 of
        Inl msg \<Rightarrow> (Inl \<lparr>status_code = 500, detail = msg\<rparr>, sessions)
      | Inr t \<Rightarrow>
          (Inr (Explanation t),
           sessions(session_id req \<mapsto>
             s\<lparr>history := history s @ [\<lparr>role = ''user'', content = snippet req\<rparr>,
                                         \<lparr>role = ''assistant'', content = t\<rparr>]\<rparr>)))"
  by (simp add: explain_def ai_response_def split: sum.splits)

lemma fix_known:
  "sessions (session_id req) = Some s \<Longrightarrow>
   fix_endpoint post exc_str sessions req =
     (case post (fix_prompt req) 60 of
        Inl msg \<Rightarrow>
          (Inl \<lparr>status_code = 500,
                detail = ''Error: '' @ exc_str \<lparr>status_code = 500, detail = msg\<rparr>\<rparr>, sessions)
      | Inr t \<Rightarrow>
          (Inr (FixedCode t),
           sessions(session_id req \<mapsto>
             s\<lparr>history := history s @ [\<lparr>role = ''user'', content = snippet req\<rparr>,
                                         \<lparr>role = ''assistant'', content = t\<rparr>]\<rparr>)))"
  by (simp add: fix_endpoint_def ai_response_def split: sum.splits)

lemma method_completion_known:
  "sessions (session_id req) = Some s \<Longrightarrow>
   method_completion post exc_str sessions req =
     (case post (method_completion_prompt req s) 60 of
        Inl msg \<Rightarrow>
          (Inl \<lparr>status_code = 500,
                detail = ''Error: '' @ exc_str \<lparr>status_code = 500, detail = msg\<rparr>\<rparr>, sessions)
      | Inr t \<Rightarrow>
          (Inr (CompletedMethod t),
           sessions(session_id req \<mapsto>
             s\<lparr>history := history s @ [\<lparr>role = ''user'', content = snippet req\<rparr>,
                                         \<lparr>role = ''assistant'', content = t\<rparr>]\<rparr>)))"
  by (simp add: method_completion_def ai_response_def split: sum.splits)

lemma explain_unknown:
  "sessions (session_id req) = None \<Longrightarrow>
   explain post sessions req =
     (Inl \<lparr>status_code = 404, detail = ''Session not found''\<rparr>, sessions)"
  by (simp add: explain_def)

lemma fix_unknown:
  "sessions (session_id req) = None \<Longrightarrow>
   fix_endpoint post exc_str sessions req =
     (Inl \<lparr>status_code = 404, detail = ''Session not found''\<rparr>, sessions)"
  by (simp add: fix_endpoint_def)

lemma method_completion_unknown:
  "sessions (session_id req) = None \<Longrightarrow>
   method_completion post exc_str sessions req =
     (Inl \<lparr>status_code = 404, detail = ''Session not found''\<rparr>, sessions)"
  by (simp add: method_completion_def)

lemma get_full_explanation_frame: "snd (get_full_explanation sessions sid) = sessions"
  by (simp add: get_full_explanation_def Let_def split: option.splits)

lemma example_lookups:
  "example_sessions ''s1'' = Some example_session"
  "example_sessions ''s2'' = Some busy_session"
  "example_sessions ''garbage'' = None"
  by (simp_all add: example_sessions_def)

subsection \<open>Unknown identifiers\<close>

text \<open>
  Claim C2. A request to \<open>explain\<close>, \<open>fix\<close>, \<open>method_completion\<close> or
  \<open>get_full_explanation\<close> whose session identifier is not a key of the dictionary
  ends in the exception with status 404 and detail \<open>Session not found\<close>, and the
  dictionary afterwards is the dictionary before, whatever the other fields, the
  upstream behaviour and the exception rendering are.
\<close>

theorem unknown_session_is_not_found:
  assumes "sid \<notin> dom sessions" and "session_id req = sid"
  shows "explain post sessions req =
           (Inl \<lparr>status_code = 404, detail = ''Session not found''\<rparr>, sessions)
       \<and> fix_endpoint post exc_str sessions req =
           (Inl \<lparr>status_code = 404, detail = ''Session not found''\<rparr>, sessions)
       \<and> method_completion post exc_str sessions req =
           (Inl \<lparr>status_code = 404, detail = ''Session not found''\<rparr>, sessions)
       \<and> get_full_explanation sessions sid =
           (Inl \<lparr>status_code = 404, detail = ''Session not found''\<rparr>, sessions)"
proof -
  from assms have absent: "sessions (session_id req) = None" "sessions sid = None"
    by auto
  from absent(2) have "get_full_explanation sessions sid =
      (Inl \<lparr>status_code = 404, detail = ''Session not found''\<rparr>, sessions)"
    by (simp add: get_full_explanation_def)
  with absent(1) show ?thesis
    by (simp add: explain_unknown fix_unknown method_completion_unknown)
qed

theorem unknown_session_is_not_found_witness:
  "''garbage'' \<notin> dom example_sessions
   \<and> session_id unknown_request = ''garbage''
   \<and> explain stub_upstream example_sessions unknown_request =
         (Inl \<lparr>status_code = 404, detail = ''Session not found''\<rparr>, example_sessions)
   \<and> fix_endpoint stub_upstream starlette_str example_sessions unknown_request =
         (Inl \<lparr>status_code = 404, detail = ''Session not found''\<rparr>, example_sessions)
   \<and> method_completion stub_upstream starlette_str example_sessions unknown_request =
         (Inl \<lparr>status_code = 404, detail = ''Session not found''\<rparr>, example_sessions)
   \<and> get_full_explanation example_sessions ''garbage'' =
         (Inl \<lparr>status_code = 404, detail = ''Session not found''\<rparr>, example_sessions)"
proof -
  have absent: "''garbage'' \<notin> dom example_sessions"
    by (simp add: example_sessions_def)
  have key: "session_id unknown_request = ''garbage''"
    by (simp add: unknown_request_def)
  from absent key
    unknown_session_is_not_found [OF absent key, of stub_upstream starlette_str]
  show ?thesis by simp
qed

subsection \<open>Starting a session\<close>

text \<open>
  Claim C3. For every file name and file text, \<open>start_session\<close> answers with the
  identifier it drew, and looking that identifier up in the dictionary it leaves behind
  gives a session with exactly that file name, exactly that file text and an empty
  history.
\<close>

theorem start_session_then_lookup:
  "fst (start_session uuid4 sessions req) = Inr (SessionId uuid4)
   \<and> snd (start_session uuid4 sessions req) uuid4 =
       Some \<lparr>file_name = req_file_name req, full_file = req_full_file req, history = []\<rparr>"
  by (simp add: start_session_def)

subsection \<open>Reading leaves the dictionary alone\<close>

text \<open>
  Claim C9. \<open>get_full_explanation\<close> never changes the dictionary, for a known and for
  an unknown identifier alike; hence after any number \<open>n\<close> of calls the dictionary is
  still the original one and one more call gives the same outcome as the first.
\<close>

theorem get_full_explanation_changes_nothing:
  "snd (get_full_explanation sessions sid) = sessions
   \<and> ((\<lambda>ss. snd (get_full_explanation ss sid)) ^^ n) sessions = sessions
   \<and> get_full_explanation (((\<lambda>ss. snd (get_full_explanation ss sid)) ^^ n) sessions) sid
       = get_full_explanation sessions sid"
proof -
  have again: "((\<lambda>ss. snd (get_full_explanation ss sid)) ^^ n) sessions = sessions"
    by (induction n) (simp_all add: get_full_explanation_frame)
  then show ?thesis
    by (simp add: get_full_explanation_frame)
qed

subsection \<open>The full explanation\<close>

lemma str_join_unfolded:
  "str_join sep xs = (case xs of [] \<Rightarrow> [] | x # rest \<Rightarrow> x @ concat (map (\<lambda>y. sep @ y) rest))"
  by (induction sep xs rule: str_join.induct) simp_all

lemma str_join_blank_line: "str_join ''\<newline>\<newline>'' xs = blank_line_separated xs"
  by (cases xs) (simp_all add: str_join_unfolded)

lemma comprehension_filter:
  "[content h. h \<leftarrow> hs, role h = ''assistant''] =
     map content (filter (\<lambda>h. role h = ''assistant'') hs)"
  by (induction hs) simp_all

lemma get_full_explanation_known:
  "sessions sid = Some s \<Longrightarrow>
   get_full_explanation sessions sid =
     (Inr (FullExplanation (blank_line_separated
        (map content (filter (\<lambda>h. role h = ''assistant'') (history s))))), sessions)"
  by (simp only: get_full_explanation_def Let_def option.case str_join_blank_line
        comprehension_filter)

text \<open>
  Claim C4. For an existing session \<open>get_full_explanation\<close> returns the contents of
  exactly the history entries whose role is \<open>assistant\<close>, in history order,
  concatenated with the two-character separator of two newlines between neighbours;
  taking any entry whose role is \<open>user\<close> out of the history leaves the returned
  text as it is.
\<close>

theorem full_explanation_joins_assistant_turns:
  assumes "sessions sid = Some s"
  shows "get_full_explanation sessions sid =
           (Inr (FullExplanation (blank_line_separated
              (map content (filter (\<lambda>h. role h = ''assistant'') (history s))))), sessions)
       \<and> (\<forall>xs h ys. history s = xs @ h # ys \<and> role h = ''user'' \<longrightarrow>
             fst (get_full_explanation (sessions(sid \<mapsto> s\<lparr>history := xs @ ys\<rparr>)) sid)
               = fst (get_full_explanation sessions sid))"
proof (intro conjI allI impI)
  show "get_full_explanation sessions sid =
           (Inr (FullExplanation (blank_line_separated
              (map content (filter (\<lambda>h. role h = ''assistant'') (history s))))), sessions)"
    using assms by (rule get_full_explanation_known)
next
  fix xs h ys
  assume split: "history s = xs @ h # ys \<and> role h = ''user''"
  then have "filter (\<lambda>h. role h = ''assistant'') (history s)
      = filter (\<lambda>h. role h = ''assistant'') (xs @ ys)"
    by simp
  moreover have "(sessions(sid \<mapsto> s\<lparr>history := xs @ ys\<rparr>)) sid = Some (s\<lparr>history := xs @ ys\<rparr>)"
    by simp
  ultimately show "fst (get_full_explanation (sessions(sid \<mapsto> s\<lparr>history := xs @ ys\<rparr>)) sid)
      = fst (get_full_explanation sessions sid)"
    using assms by (simp add: get_full_explanation_known)
qed

theorem full_explanation_joins_assistant_turns_witness:
  "example_sessions ''s2'' = Some busy_session
   \<and> get_full_explanation example_sessions ''s2'' =
       (Inr (FullExplanation ''a name\<newline>\<newline>a number''), example_sessions)
   \<and> history busy_session =
       [\<lparr>role = ''user'', content = ''x''\<rparr>, \<lparr>role = ''assistant'', content = ''a name''\<rparr>]
       @ \<lparr>role = ''user'', content = ''2''\<rparr> # [\<lparr>role = ''assistant'', content = ''a number''\<rparr>]
   \<and> fst (get_full_explanation
         (example_sessions(''s2'' \<mapsto> busy_session\<lparr>history :=
            [\<lparr>role = ''user'', content = ''x''\<rparr>, \<lparr>role = ''assistant'', content = ''a name''\<rparr>]
            @ [\<lparr>role = ''assistant'', content = ''a number''\<rparr>]\<rparr>)) ''s2'')
       = Inr (FullExplanation ''a name\<newline>\<newline>a number'')"
proof -
  have known: "example_sessions ''s2'' = Some busy_session"
    by (rule example_lookups)
  have hist: "history busy_session =
       [\<lparr>role = ''user'', content = ''x''\<rparr>, \<lparr>role = ''assistant'', content = ''a name''\<rparr>]
       @ \<lparr>role = ''user'', content = ''2''\<rparr> # [\<lparr>role = ''assistant'', content = ''a number''\<rparr>]"
    by (simp add: busy_session_def)
  note joined = full_explanation_joins_assistant_turns
    [of example_sessions "''s2''" busy_session, OF known]
  from joined have a: "get_full_explanation example_sessions ''s2'' =
       (Inr (FullExplanation ''a name\<newline>\<newline>a number''), example_sessions)"
    by (simp add: busy_session_def)
  have "fst (get_full_explanation
         (example_sessions(''s2'' \<mapsto> busy_session\<lparr>history :=
            [\<lparr>role = ''user'', content = ''x''\<rparr>, \<lparr>role = ''assistant'', content = ''a name''\<rparr>]
            @ [\<lparr>role = ''assistant'', content = ''a number''\<rparr>]\<rparr>)) ''s2'')
       = fst (get_full_explanation example_sessions ''s2'')"
    by (rule joined [THEN conjunct2, rule_format,
          of _ "\<lparr>role = ''user'', content = ''2''\<rparr>"]) (simp add: hist)
  with a known hist show ?thesis by simp
qed

subsection \<open>Successful snippet calls\<close>


lemma example_request_known: "example_sessions (session_id example_request) = Some example_session"
  by (simp add: example_request_def example_lookups)


subsection \<open>Failed upstream calls\<close>

text \<open>
  Claim C5. When the upstream call of \<open>explain\<close>, \<open>fix\<close> or \<open>method_completion\<close> on an
  existing session fails, for whatever reason and with whatever message, the handler
  ends in an exception with status 500 and the dictionary afterwards is the dictionary
  before: no \<open>user\<close> and no \<open>assistant\<close> entry has been appended.
\<close>

theorem upstream_failure_aborts_without_trace:
  assumes "sessions (session_id req) = Some s"
  shows "(\<forall>msg. post (explain_prompt req s) 40 = Inl msg \<longrightarrow>
            snd (explain post sessions req) = sessions
            \<and> (\<exists>e. fst (explain post sessions req) = Inl e \<and> status_code e = 500))
       \<and> (\<forall>msg. post (fix_prompt req) 60 = Inl msg \<longrightarrow>
            snd (fix_endpoint post exc_str sessions req) = sessions
            \<and> (\<exists>e. fst (fix_endpoint post exc_str sessions req) = Inl e
                  \<and> status_code e = 500))
       \<and> (\<forall>msg. post (method_completion_prompt req s) 60 = Inl msg \<longrightarrow>
            snd (method_completion post exc_str sessions req) = sessions
            \<and> (\<exists>e. fst (method_completion post exc_str sessions req) = Inl e
                  \<and> status_code e = 500))"
  using assms by (simp add: explain_known fix_known method_completion_known)

theorem upstream_failure_aborts_without_trace_witness:
  "example_sessions (session_id example_request) = Some example_session
   \<and> failing_upstream (explain_prompt example_request example_session) 40 = Inl ''timed out''
   \<and> explain failing_upstream example_sessions example_request
       = (Inl \<lparr>status_code = 500, detail = ''timed out''\<rparr>, example_sessions)
   \<and> failing_upstream (fix_prompt example_request) 60 = Inl ''timed out''
   \<and> snd (fix_endpoint failing_upstream starlette_str example_sessions example_request)
       = example_sessions
   \<and> map_sum status_code id
         (fst (fix_endpoint failing_upstream starlette_str example_sessions example_request))
       = Inl 500
   \<and> failing_upstream (method_completion_prompt example_request example_session) 60
       = Inl ''timed out''
   \<and> snd (method_completion failing_upstream starlette_str example_sessions example_request)
       = example_sessions
   \<and> map_sum status_code id
         (fst (method_completion failing_upstream starlette_str example_sessions
            example_request))
       = Inl 500"
proof -
  note known = example_request_known
  note aborts = upstream_failure_aborts_without_trace
    [of example_sessions example_request example_session failing_upstream starlette_str,
     OF known]
  have fails: "failing_upstream p t = Inl ''timed out''" for p t
    by (simp add: failing_upstream_def)
  from aborts [THEN conjunct1, rule_format, OF fails]
  have e: "explain failing_upstream example_sessions example_request
       = (Inl \<lparr>status_code = 500, detail = ''timed out''\<rparr>, example_sessions)"
    by (simp add: prod_eq_iff
          explain_known [of example_sessions example_request example_session, OF known] fails)
  from aborts [THEN conjunct2, THEN conjunct1, rule_format, OF fails]
  have f: "snd (fix_endpoint failing_upstream starlette_str example_sessions example_request)
       = example_sessions
     \<and> map_sum status_code id
         (fst (fix_endpoint failing_upstream starlette_str example_sessions example_request))
       = Inl 500"
    by auto
  from aborts [THEN conjunct2, THEN conjunct2, rule_format, OF fails]
  have m: "snd (method_completion failing_upstream starlette_str example_sessions
               example_request) = example_sessions
     \<and> map_sum status_code id
         (fst (method_completion failing_upstream starlette_str example_sessions
            example_request))
       = Inl 500"
    by auto
  from known e f m show ?thesis by (simp add: fails)
qed

subsection \<open>What a successful snippet call leaves alone\<close>

lemma only_history_replaced:
  assumes "sessions k = Some s" and "ss' = sessions(k \<mapsto> s\<lparr>history := h\<rparr>)"
  shows "(\<exists>s'. ss' k = Some s' \<and> file_name s' = file_name s \<and> full_file s' = full_file s)
       \<and> dom ss' = dom sessions
       \<and> (\<forall>j. j \<noteq> k \<longrightarrow> ss' j = sessions j)"
  using assms by auto

text \<open>
  Claim C10. A successful \<open>explain\<close>, \<open>fix\<close> or \<open>method_completion\<close> on a session keeps
  the file name and the file text of that session, keeps every other entry of the
  dictionary, and neither adds nor removes a key. The question of an \<open>explain\<close>
  request reaches the dictionary only through the answer of the upstream call: two
  requests that differ in the question alone and get the same outcome leave the same
  dictionary behind.
\<close>

theorem successful_call_changes_only_that_history:
  assumes "sessions (session_id req) = Some s"
  shows "(\<forall>r ss'. explain post sessions req = (Inr r, ss') \<longrightarrow>
            (\<exists>s'. ss' (session_id req) = Some s'
                \<and> file_name s' = file_name s \<and> full_file s' = full_file s)
            \<and> dom ss' = dom sessions
            \<and> (\<forall>k. k \<noteq> session_id req \<longrightarrow> ss' k = sessions k))
       \<and> (\<forall>r ss'. fix_endpoint post exc_str sessions req = (Inr r, ss') \<longrightarrow>
            (\<exists>s'. ss' (session_id req) = Some s'
                \<and> file_name s' = file_name s \<and> full_file s' = full_file s)
            \<and> dom ss' = dom sessions
            \<and> (\<forall>k. k \<noteq> session_id req \<longrightarrow> ss' k = sessions k))
       \<and> (\<forall>r ss'. method_completion post exc_str sessions req = (Inr r, ss') \<longrightarrow>
            (\<exists>s'. ss' (session_id req) = Some s'
                \<and> file_name s' = file_name s \<and> full_file s' = full_file s)
            \<and> dom ss' = dom sessions
            \<and> (\<forall>k. k \<noteq> session_id req \<longrightarrow> ss' k = sessions k))
       \<and> (\<forall>q. fst (explain post sessions (req\<lparr>question := q\<rparr>)) = fst (explain post sessions req)
            \<longrightarrow> snd (explain post sessions (req\<lparr>question := q\<rparr>))
                  = snd (explain post sessions req))"
proof (intro conjI allI impI)
  fix r ss'
  assume "explain post sessions req = (Inr r, ss')"
  with assms obtain h where "ss' = sessions(session_id req \<mapsto> s\<lparr>history := h\<rparr>)"
    by (cases "post (explain_prompt req s) 40") (auto simp: explain_known)
  from only_history_replaced [OF assms this]
  show "\<exists>s'. ss' (session_id req) = Some s'
                \<and> file_name s' = file_name s \<and> full_file s' = full_file s"
    and "dom ss' = dom sessions"
    and "\<And>k. k \<noteq> session_id req \<Longrightarrow> ss' k = sessions k"
    by blast+
next
  fix r ss'
  assume "fix_endpoint post exc_str sessions req = (Inr r, ss')"
  with assms obtain h where "ss' = sessions(session_id req \<mapsto> s\<lparr>history := h\<rparr>)"
    by (cases "post (fix_prompt req) 60") (auto simp: fix_known)
  from only_history_replaced [OF assms this]
  show "\<exists>s'. ss' (session_id req) = Some s'
                \<and> file_name s' = file_name s \<and> full_file s' = full_file s"
    and "dom ss' = dom sessions"
    and "\<And>k. k \<noteq> session_id req \<Longrightarrow> ss' k = sessions k"
    by blast+
next
  fix r ss'
  assume "method_completion post exc_str sessions req = (Inr r, ss')"
  with assms obtain h where "ss' = sessions(session_id req \<mapsto> s\<lparr>history := h\<rparr>)"
    by (cases "post (method_completion_prompt req s) 60") (auto simp: method_completion_known)
  from only_history_replaced [OF assms this]
  show "\<exists>s'. ss' (session_id req) = Some s'
                \<and> file_name s' = file_name s \<and> full_file s' = full_file s"
    and "dom ss' = dom sessions"
    and "\<And>k. k \<noteq> session_id req \<Longrightarrow> ss' k = sessions k"
    by blast+
next
  fix q
  assume same: "fst (explain post sessions (req\<lparr>question := q\<rparr>)) = fst (explain post sessions req)"
  from assms have known': "sessions (session_id (req\<lparr>question := q\<rparr>)) = Some s"
    by simp
  show "snd (explain post sessions (req\<lparr>question := q\<rparr>)) = snd (explain post sessions req)"
    using same
    by (cases "post (explain_prompt req s) 40";
        cases "post (explain_prompt (req\<lparr>question := q\<rparr>) s) 40")
       (simp_all add: explain_known [of sessions req s, OF assms]
          explain_known [of sessions "req\<lparr>question := q\<rparr>" s, OF known'])
qed

lemma hinted_request_known: "example_sessions (session_id hinted_request) = Some busy_session"
  by (simp add: hinted_request_def example_lookups)

theorem successful_call_changes_only_that_history_witness:
  "example_sessions (session_id hinted_request) = Some busy_session
   \<and> fst (explain stub_upstream example_sessions hinted_request) = Inr (Explanation ''prints 1'')
   \<and> map_option file_name (snd (explain stub_upstream example_sessions hinted_request) ''s2'')
       = Some ''b.py''
   \<and> map_option full_file (snd (explain stub_upstream example_sessions hinted_request) ''s2'')
       = Some ''x = 2''
   \<and> dom (snd (explain stub_upstream example_sessions hinted_request)) = dom example_sessions
   \<and> snd (explain stub_upstream example_sessions hinted_request) ''s1'' = Some example_session
   \<and> fst (fix_endpoint stub_upstream starlette_str example_sessions hinted_request)
       = Inr (FixedCode ''prints 1'')
   \<and> map_option file_name
         (snd (fix_endpoint stub_upstream starlette_str example_sessions hinted_request) ''s2'')
       = Some ''b.py''
   \<and> dom (snd (fix_endpoint stub_upstream starlette_str example_sessions hinted_request))
       = dom example_sessions
   \<and> snd (fix_endpoint stub_upstream starlette_str example_sessions hinted_request) ''s1''
       = Some example_session
   \<and> fst (method_completion stub_upstream starlette_str example_sessions hinted_request)
       = Inr (CompletedMethod ''prints 1'')
   \<and> map_option full_file
         (snd (method_completion stub_upstream starlette_str example_sessions hinted_request)
            ''s2'')
       = Some ''x = 2''
   \<and> dom (snd (method_completion stub_upstream starlette_str example_sessions hinted_request))
       = dom example_sessions
   \<and> snd (method_completion stub_upstream starlette_str example_sessions hinted_request) ''s1''
       = Some example_session
   \<and> snd (explain stub_upstream example_sessions (hinted_request\<lparr>question := None\<rparr>))
       = snd (explain stub_upstream example_sessions hinted_request)"
proof -
  let ?E = "explain stub_upstream example_sessions hinted_request"
  let ?F = "fix_endpoint stub_upstream starlette_str example_sessions hinted_request"
  let ?M = "method_completion stub_upstream starlette_str example_sessions hinted_request"
  note known = hinted_request_known
  note frame = successful_call_changes_only_that_history
    [of example_sessions hinted_request busy_session stub_upstream starlette_str, OF known]
  have sid: "session_id hinted_request = ''s2''"
    by (simp add: hinted_request_def)
  have other: "''s1'' \<noteq> session_id hinted_request"
    by (simp add: sid)
  have busy: "file_name busy_session = ''b.py''" "full_file busy_session = ''x = 2''"
    by (simp_all add: busy_session_def)
  have e: "fst ?E = Inr (Explanation ''prints 1'')"
    by (simp add: explain_known [of example_sessions hinted_request busy_session, OF known]
          stub_upstream_def)
  then have "?E = (Inr (Explanation ''prints 1''), snd ?E)"
    by (simp add: prod_eq_iff)
  note e_frame = frame [THEN conjunct1, rule_format, OF this]
  from e_frame have e1: "map_option file_name (snd ?E ''s2'') = Some ''b.py''"
    and e2: "map_option full_file (snd ?E ''s2'') = Some ''x = 2''"
    and e3: "dom (snd ?E) = dom example_sessions"
    by (auto simp: sid busy)
  from e_frame other have e4: "snd ?E ''s1'' = Some example_session"
    by (simp add: example_lookups)
  have f: "fst ?F = Inr (FixedCode ''prints 1'')"
    by (simp add: fix_known [of example_sessions hinted_request busy_session, OF known]
          stub_upstream_def)
  then have "?F = (Inr (FixedCode ''prints 1''), snd ?F)"
    by (simp add: prod_eq_iff)
  note f_frame = frame [THEN conjunct2, THEN conjunct1, rule_format, OF this]
  from f_frame have f1: "map_option file_name (snd ?F ''s2'') = Some ''b.py''"
    and f3: "dom (snd ?F) = dom example_sessions"
    by (auto simp: sid busy)
  from f_frame other have f4: "snd ?F ''s1'' = Some example_session"
    by (simp add: example_lookups)
  have m: "fst ?M = Inr (CompletedMethod ''prints 1'')"
    by (simp add: method_completion_known [of example_sessions hinted_request busy_session,
          OF known] stub_upstream_def)
  then have "?M = (Inr (CompletedMethod ''prints 1''), snd ?M)"
    by (simp add: prod_eq_iff)
  note m_frame = frame [THEN conjunct2, THEN conjunct2, THEN conjunct1, rule_format, OF this]
  from m_frame have m2: "map_option full_file (snd ?M ''s2'') = Some ''x = 2''"
    and m3: "dom (snd ?M) = dom example_sessions"
    by (auto simp: sid busy)
  from m_frame other have m4: "snd ?M ''s1'' = Some example_session"
    by (simp add: example_lookups)
  have known': "example_sessions (session_id (hinted_request\<lparr>question := None\<rparr>))
      = Some busy_session"
    using known by simp
  have "fst (explain stub_upstream example_sessions (hinted_request\<lparr>question := None\<rparr>))
      = fst ?E"
    by (simp add: e explain_known [of example_sessions "hinted_request\<lparr>question := None\<rparr>"
          busy_session, OF known'] stub_upstream_def)
  from frame [THEN conjunct2, THEN conjunct2, THEN conjunct2, rule_format, OF this]
  have q: "snd (explain stub_upstream example_sessions (hinted_request\<lparr>question := None\<rparr>))
      = snd ?E" .
  from known e e1 e2 e3 e4 f f1 f3 f4 m m2 m3 m4 q show ?thesis
    by simp
qed

subsection \<open>Histories only grow\<close>

lemma snippet_call_extends_history:
  assumes "sessions k = Some s"
    and "ss' = sessions \<or> (\<exists>s0 more. sessions sid = Some s0
           \<and> ss' = sessions(sid \<mapsto> s0\<lparr>history := history s0 @ more\<rparr>))"
  shows "\<exists>s'. ss' k = Some s' \<and> prefix (history s) (history s')"
  using assms by (cases "k = sid") auto

lemma explain_store:
  "snd (explain post sessions req) = sessions
   \<or> (\<exists>s0 more. sessions (session_id req) = Some s0
         \<and> snd (explain post sessions req)
             = sessions(session_id req \<mapsto> s0\<lparr>history := history s0 @ more\<rparr>))"
proof (cases "sessions (session_id req)")
  case None
  then show ?thesis by (simp add: explain_unknown)
next
  case (Some s0)
  then show ?thesis
    by (cases "post (explain_prompt req s0) 40") (auto simp: explain_known)
qed

lemma fix_store:
  "snd (fix_endpoint post exc_str sessions req) = sessions
   \<or> (\<exists>s0 more. sessions (session_id req) = Some s0
         \<and> snd (fix_endpoint post exc_str sessions req)
             = sessions(session_id req \<mapsto> s0\<lparr>history := history s0 @ more\<rparr>))"
proof (cases "sessions (session_id req)")
  case None
  then show ?thesis by (simp add: fix_unknown)
next
  case (Some s0)
  then show ?thesis
    by (cases "post (fix_prompt req) 60") (auto simp: fix_known)
qed

lemma method_completion_store:
  "snd (method_completion post exc_str sessions req) = sessions
   \<or> (\<exists>s0 more. sessions (session_id req) = Some s0
         \<and> snd (method_completion post exc_str sessions req)
             = sessions(session_id req \<mapsto> s0\<lparr>history := history s0 @ more\<rparr>))"
proof (cases "sessions (session_id req)")
  case None
  then show ?thesis by (simp add: method_completion_unknown)
next
  case (Some s0)
  then show ?thesis
    by (cases "post (method_completion_prompt req s0) 60") (auto simp: method_completion_known)
qed

text \<open>
  Claim C8 as stated covers every \<open>start_session\<close> request. The handler stores the
  new record under the drawn identifier without looking whether that key is taken, so
  a request served with the identifier of an existing session replaces that session:
  the four recorded entries of \<open>s2\<close> are gone and its history is empty, of which the
  history before is no prefix.
\<close>

theorem colliding_identifier_counterexample:
  "example_sessions ''s2'' = Some busy_session
   \<and> history busy_session
       = [\<lparr>role = ''user'', content = ''x''\<rparr>, \<lparr>role = ''assistant'', content = ''a name''\<rparr>,
          \<lparr>role = ''user'', content = ''2''\<rparr>, \<lparr>role = ''assistant'', content = ''a number''\<rparr>]
   \<and> handle stub_upstream starlette_str example_sessions
         (StartSession ''s2'' \<lparr>req_file_name = ''c.py'', req_full_file = ''pass''\<rparr>)
       = (Inr (SessionId ''s2''),
          example_sessions(''s2'' \<mapsto> \<lparr>file_name = ''c.py'', full_file = ''pass'', history = []\<rparr>))
   \<and> map_option history
         (snd (handle stub_upstream starlette_str example_sessions
                 (StartSession ''s2'' \<lparr>req_file_name = ''c.py'', req_full_file = ''pass''\<rparr>))
            ''s2'')
       = Some []
   \<and> \<not> prefix (history busy_session) []"
  by (simp add: start_session_def example_lookups busy_session_def)

text \<open>
  Claim C8, amended. Whatever the request (\<open>start_session\<close>, \<open>explain\<close>, \<open>fix\<close>,
  \<open>method_completion\<close> or \<open>get_full_explanation\<close>) and whether it succeeds or fails,
  provided that the identifier drawn for a \<open>start_session\<close> request is not yet a key of
  the dictionary, every session that exists before it exists after it, and its history
  before is a prefix of its history after: no recorded entry is removed or reordered.
\<close>

theorem history_is_append_only:
  assumes "sessions k = Some s"
    and "\<forall>uuid4 r. request = StartSession uuid4 r \<longrightarrow> uuid4 \<notin> dom sessions"
  shows "\<exists>s'. snd (handle post exc_str sessions request) k = Some s'
           \<and> prefix (history s) (history s')"
proof (cases request)
  case (StartSession uuid4 r)
  with assms have "uuid4 \<noteq> k" by auto
  with assms(1) StartSession show ?thesis
    by (simp add: start_session_def)
next
  case (Explain req)
  from snippet_call_extends_history [of sessions k s _ "session_id req", OF assms(1) explain_store] Explain
  show ?thesis by simp
next
  case (Fix req)
  from snippet_call_extends_history [of sessions k s _ "session_id req", OF assms(1) fix_store] Fix
  show ?thesis by simp
next
  case (GetFullExplanation sid)
  with assms(1) show ?thesis
    by (simp add: get_full_explanation_frame)
next
  case (MethodCompletion req)
  from snippet_call_extends_history [of sessions k s _ "session_id req", OF assms(1) method_completion_store] MethodCompletion
  show ?thesis by simp
qed

theorem history_is_append_only_witness:
  "example_sessions ''s2'' = Some busy_session
   \<and> ''s3'' \<notin> dom example_sessions
   \<and> map_option history
         (snd (handle stub_upstream starlette_str example_sessions
                 (StartSession ''s3'' \<lparr>req_file_name = ''c.py'', req_full_file = ''pass''\<rparr>))
            ''s2'')
       = Some (history busy_session)
   \<and> map_option history
         (snd (handle stub_upstream starlette_str example_sessions (Explain hinted_request))
            ''s2'')
       = Some (history busy_session @ [\<lparr>role = ''user'', content = ''x''\<rparr>,
                                       \<lparr>role = ''assistant'', content = ''prints 1''\<rparr>])
   \<and> prefix (history busy_session)
         (history busy_session @ [\<lparr>role = ''user'', content = ''x''\<rparr>,
                                  \<lparr>role = ''assistant'', content = ''prints 1''\<rparr>])"
proof -
  have known: "example_sessions ''s2'' = Some busy_session"
    by (rule example_lookups)
  have fresh: "''s3'' \<notin> dom example_sessions"
    by (simp add: example_sessions_def)
  then have fresh': "\<forall>uuid4 r.
      StartSession ''s3'' \<lparr>req_file_name = ''c.py'', req_full_file = ''pass''\<rparr>
        = StartSession uuid4 r \<longrightarrow> uuid4 \<notin> dom example_sessions"
    by simp
  have no_start: "\<forall>uuid4 r. Explain hinted_request = StartSession uuid4 r
      \<longrightarrow> uuid4 \<notin> dom example_sessions"
    by simp
  from history_is_append_only [of example_sessions "''s2''" busy_session _ stub_upstream
         starlette_str, OF known fresh']
  have a: "map_option history
         (snd (handle stub_upstream starlette_str example_sessions
                 (StartSession ''s3'' \<lparr>req_file_name = ''c.py'', req_full_file = ''pass''\<rparr>))
            ''s2'')
       = Some (history busy_session)"
    by (simp add: start_session_def known)
  from history_is_append_only [of example_sessions "''s2''" busy_session _ stub_upstream
         starlette_str, OF known no_start]
  have b: "map_option history
         (snd (handle stub_upstream starlette_str example_sessions (Explain hinted_request))
            ''s2'')
       = Some (history busy_session @ [\<lparr>role = ''user'', content = ''x''\<rparr>,
                                       \<lparr>role = ''assistant'', content = ''prints 1''\<rparr>])"
    by (simp add: explain_known [of example_sessions hinted_request busy_session,
          OF hinted_request_known] stub_upstream_def)
       (simp add: hinted_request_def)
  from known fresh a b show ?thesis by simp
qed

subsection \<open>Error responses\<close>

lemma decimal_500: "decimal 500 = ''500''"
  by code_simp

text \<open>
  Claim C6 as stated asks that the detail of a 500 response is the text of the
  underlying exception, for \<open>fix\<close> as for \<open>explain\<close>. On a session that exists and an
  upstream call that fails with \<open>timed out\<close>, \<open>fix\<close> answers with the detail
  \<open>Error: 500: timed out\<close> under Starlette's rendering, and with a detail that begins
  with \<open>Error: \<close> under any other.
\<close>

theorem fix_error_detail_counterexample:
  "failing_upstream (fix_prompt example_request) 60 = Inl ''timed out''
   \<and> fix_endpoint failing_upstream starlette_str example_sessions example_request
       = (Inl \<lparr>status_code = 500, detail = ''Error: 500: timed out''\<rparr>, example_sessions)
   \<and> ''Error: 500: timed out'' \<noteq> ''timed out''"
  by (simp add: fix_known [of example_sessions example_request example_session,
        OF example_request_known] failing_upstream_def starlette_str_def decimal_500)

text \<open>
  Claim C6, amended. An error response of the service is the 404 exception with detail
  \<open>Session not found\<close>, or a 500 exception after a failed upstream call on an existing
  session. The detail of the 500 exception is the text of the underlying exception for
  \<open>explain\<close>; for \<open>fix\<close> and \<open>method_completion\<close> it is \<open>Error: \<close> followed by the
  rendering of the 500 exception that \<open>ai_response\<close> raised, which holds that text.
  \<open>start_session\<close> has no error response and \<open>get_full_explanation\<close> only the 404 one.
\<close>

theorem error_responses_of_the_service:
  assumes "handle post exc_str sessions request = (Inl e, ss')"
  shows "e = \<lparr>status_code = 404, detail = ''Session not found''\<rparr>
       \<or> (\<exists>req s msg. request = Explain req \<and> sessions (session_id req) = Some s
             \<and> post (explain_prompt req s) 40 = Inl msg
             \<and> e = \<lparr>status_code = 500, detail = msg\<rparr>)
       \<or> (\<exists>req s msg. request = Fix req \<and> sessions (session_id req) = Some s
             \<and> post (fix_prompt req) 60 = Inl msg
             \<and> e = \<lparr>status_code = 500,
                      detail = ''Error: '' @ exc_str \<lparr>status_code = 500, detail = msg\<rparr>\<rparr>)
       \<or> (\<exists>req s msg. request = MethodCompletion req \<and> sessions (session_id req) = Some s
             \<and> post (method_completion_prompt req s) 60 = Inl msg
             \<and> e = \<lparr>status_code = 500,
                      detail = ''Error: '' @ exc_str \<lparr>status_code = 500, detail = msg\<rparr>\<rparr>)"
proof (cases request)
  case (StartSession uuid4 r)
  with assms show ?thesis by (simp add: start_session_def)
next
  case (Explain req)
  show ?thesis
  proof (cases "sessions (session_id req)")
    case None
    with assms Explain show ?thesis by (simp add: explain_unknown)
  next
    case (Some s)
    with assms Explain show ?thesis
      by (cases "post (explain_prompt req s) 40") (auto simp: explain_known)
  qed
next
  case (Fix req)
  show ?thesis
  proof (cases "sessions (session_id req)")
    case None
    with assms Fix show ?thesis by (simp add: fix_unknown)
  next
    case (Some s)
    with assms Fix show ?thesis
      by (cases "post (fix_prompt req) 60") (auto simp: fix_known)
  qed
next
  case (GetFullExplanation sid)
  with assms show ?thesis
    by (cases "sessions sid") (auto simp: get_full_explanation_def Let_def)
next
  case (MethodCompletion req)
  show ?thesis
  proof (cases "sessions (session_id req)")
    case None
    with assms MethodCompletion show ?thesis by (simp add: method_completion_unknown)
  next
    case (Some s)
    with assms MethodCompletion show ?thesis
      by (cases "post (method_completion_prompt req s) 60") (auto simp: method_completion_known)
  qed
qed

theorem error_responses_of_the_service_witness:
  "handle failing_upstream starlette_str example_sessions (MethodCompletion example_request)
     = (Inl \<lparr>status_code = 500, detail = ''Error: 500: timed out''\<rparr>, example_sessions)
   \<and> (\<exists>msg. failing_upstream (method_completion_prompt example_request example_session) 60
               = Inl msg
        \<and> ''Error: 500: timed out''
            = ''Error: '' @ starlette_str \<lparr>status_code = 500, detail = msg\<rparr>)
   \<and> handle failing_upstream starlette_str example_sessions (Explain example_request)
     = (Inl \<lparr>status_code = 500, detail = ''timed out''\<rparr>, example_sessions)
   \<and> handle failing_upstream starlette_str example_sessions (Explain unknown_request)
     = (Inl \<lparr>status_code = 404, detail = ''Session not found''\<rparr>, example_sessions)"
proof -
  have fails: "failing_upstream p t = Inl ''timed out''" for p t
    by (simp add: failing_upstream_def)
  have run: "handle failing_upstream starlette_str example_sessions
        (MethodCompletion example_request)
      = (Inl \<lparr>status_code = 500, detail = ''Error: 500: timed out''\<rparr>, example_sessions)"
    by (simp add: method_completion_known [of example_sessions example_request example_session,
          OF example_request_known] fails starlette_str_def decimal_500)
  from error_responses_of_the_service [OF run] example_request_known
  have "\<exists>msg. failing_upstream (method_completion_prompt example_request example_session) 60
               = Inl msg
        \<and> ''Error: 500: timed out''
            = ''Error: '' @ starlette_str \<lparr>status_code = 500, detail = msg\<rparr>"
    by auto
  moreover have "handle failing_upstream starlette_str example_sessions (Explain example_request)
     = (Inl \<lparr>status_code = 500, detail = ''timed out''\<rparr>, example_sessions)"
    by (simp add: explain_known [of example_sessions example_request example_session,
          OF example_request_known] fails)
  moreover have "handle failing_upstream starlette_str example_sessions (Explain unknown_request)
     = (Inl \<lparr>status_code = 404, detail = ''Session not found''\<rparr>, example_sessions)"
    by (simp add: explain_unknown unknown_request_def example_lookups)
  ultimately show ?thesis using run by simp
qed

subsection \<open>The prompt of explain\<close>

lemma foldl_append_pieces: "foldl (\<lambda>acc h. acc @ f h) start hs = start @ concat (map f hs)"
  by (induction hs arbitrary: start) simp_all

text \<open>
  Claim C7 as stated asks for the question hint in the prompt exactly when a question
  is supplied. A request whose question is the empty string supplies one, yet the
  prompt built for it has no \<open>Question:\<close> line, since the source tests the truth value
  of the field: the prompt differs from the one with a hint line for every supplied
  value.
\<close>

theorem empty_question_counterexample:
  "question empty_question_request = Some []
   \<and> explain_prompt empty_question_request example_session
       = ''Explain the following code snippet in context of the full file in concisely:\<newline>print(1)\<newline>\<newline>Full file:\<newline>print(1)\<newline>\<newline>''
   \<and> explain_prompt_as_specified empty_question_request example_session
       = ''Explain the following code snippet in context of the full file in concisely:\<newline>print(1)\<newline>Question: \<newline>\<newline>Full file:\<newline>print(1)\<newline>\<newline>''
   \<and> explain_prompt empty_question_request example_session
       \<noteq> explain_prompt_as_specified empty_question_request example_session"
  by (simp add: explain_prompt_def explain_prompt_as_specified_def hint_when_supplied_def
        truthy_def empty_question_request_def example_session_def)

text \<open>
  Claim C7, amended. The prompt of \<open>explain\<close> is the concatenation of: the language
  hint line, present exactly when a language is supplied and non-empty; the fixed
  instruction text; the snippet; the question hint line, present exactly when a
  question is supplied and non-empty; the full stored file text between its fixed
  markers; and one piece with the role and the content of every entry of the prior
  history, in order. On an existing session the outcome of \<open>explain\<close> is what
  \<open>ai_response\<close> makes of the upstream answer to exactly this prompt with timeout 40.
\<close>

theorem explain_prompt_is_a_concatenation:
  "explain_prompt req s =
     (case programming_lang req of
        None \<Rightarrow> []
      | Some lang \<Rightarrow> if lang = [] then [] else ''Programming language: '' @ lang @ ''\<newline>'')
     @ ''Explain the following code snippet in context of the full file in concisely:\<newline>''
     @ snippet req @ ''\<newline>''
     @ (case question req of
          None \<Rightarrow> []
        | Some q \<Rightarrow> if q = [] then [] else ''Question: '' @ q @ ''\<newline>'')
     @ ''\<newline>Full file:\<newline>'' @ full_file s @ ''\<newline>\<newline>''
     @ concat (map (\<lambda>h. role h @ '':\<newline>'' @ content h @ ''\<newline>'') (history s))
   \<and> (sessions (session_id req) = Some s \<longrightarrow>
         fst (explain post sessions req)
           = map_sum id Explanation (ai_response post (explain_prompt req s) 40))"
proof
  show "explain_prompt req s =
     (case programming_lang req of
        None \<Rightarrow> []
      | Some lang \<Rightarrow> if lang = [] then [] else ''Programming language: '' @ lang @ ''\<newline>'')
     @ ''Explain the following code snippet in context of the full file in concisely:\<newline>''
     @ snippet req @ ''\<newline>''
     @ (case question req of
          None \<Rightarrow> []
        | Some q \<Rightarrow> if q = [] then [] else ''Question: '' @ q @ ''\<newline>'')
     @ ''\<newline>Full file:\<newline>'' @ full_file s @ ''\<newline>\<newline>''
     @ concat (map (\<lambda>h. role h @ '':\<newline>'' @ content h @ ''\<newline>'') (history s))"
    unfolding explain_prompt_def Let_def foldl_append_pieces truthy_def
    by (cases "programming_lang req"; cases "question req") simp_all
next
  show "sessions (session_id req) = Some s \<longrightarrow>
         fst (explain post sessions req)
           = map_sum id Explanation (ai_response post (explain_prompt req s) 40)"
    by (cases "post (explain_prompt req s) 40") (simp_all add: explain_known ai_response_def)
qed

theorem explain_prompt_is_a_concatenation_witness:
  "example_sessions (session_id hinted_request) = Some busy_session
   \<and> explain_prompt hinted_request busy_session
       = ''Programming language: python\<newline>Explain the following code snippet in context of the full file in concisely:\<newline>x\<newline>Question: why?\<newline>\<newline>Full file:\<newline>x = 2\<newline>\<newline>user:\<newline>x\<newline>assistant:\<newline>a name\<newline>user:\<newline>2\<newline>assistant:\<newline>a number\<newline>''
   \<and> fst (explain stub_upstream example_sessions hinted_request)
       = Inr (Explanation ''prints 1'')"
proof -
  note built = explain_prompt_is_a_concatenation
    [of hinted_request busy_session example_sessions stub_upstream]
  from built [THEN conjunct1]
  have prompt: "explain_prompt hinted_request busy_session
       = ''Programming language: python\<newline>Explain the following code snippet in context of the full file in concisely:\<newline>x\<newline>Question: why?\<newline>\<newline>Full file:\<newline>x = 2\<newline>\<newline>user:\<newline>x\<newline>assistant:\<newline>a name\<newline>user:\<newline>2\<newline>assistant:\<newline>a number\<newline>''"
    by (simp add: hinted_request_def busy_session_def)
  from built [THEN conjunct2, rule_format, OF hinted_request_known]
  have "fst (explain stub_upstream example_sessions hinted_request)
       = Inr (Explanation ''prints 1'')"
    by (simp add: ai_response_def stub_upstream_def)
  with hinted_request_known prompt show ?thesis by simp
qed

end
